theory Spec2Isabelle
  imports Main "HOL-Library.Word"
begin

section \<open>Values shared by both source files\<close>

text \<open>
  Go's \<^verbatim>\<open>int64\<close> is a 64-bit word read as a signed number (\<open>sint\<close>); the versions,
  event ids and execution counts below are only compared and copied. Go's \<^verbatim>\<open>int\<close>
  (payload sizes, deletion counts) and \<^verbatim>\<open>time.Duration\<close> (nanoseconds) are compared
  with constants and copied, never added to, so they are integers.
\<close>

type_synonym int64 = "64 word"
type_synonym Duration = int

definition Second :: Duration where
  "Second = 1000000000"

definition Hour :: Duration where
  "Hour = 3600 * Second"

text \<open>
  The error type names of package \<^verbatim>\<open>deletenamespace/errors\<close> and its sentinel errors.
  Modelled from the spec: the package is not among the source files; the spec names the
  three conditions "executions still exist", "no progress" and "not-deleted executions
  still exist" and a validation class. Any other type string is \<open>OtherErrType\<close>.
\<close>

datatype err_type =
    ExecutionsStillExistErrType
  | NoProgressErrType
  | NotDeletedExecutionsStillExistErrType
  | ValidationErrorErrType
  | OtherErrType string

datatype sentinel =
    ErrUnableToExecuteActivity
  | ErrUnableToExecuteChildWorkflow
  | ErrUnableToSetUpdateHandler

text \<open>
  The details of an application error: none, an encoded integer, or a payload that does
  not decode into an integer.
\<close>

datatype details = NoDetails | IntDetails int | OtherDetails

text \<open>
  Errors as values. \<open>ApplicationError message type nonRetryable details\<close> is the SDK's
  \<^verbatim>\<open>temporal.ApplicationError\<close>; \<open>ActivityError\<close> and \<open>ChildWorkflowExecutionError\<close> are
  the SDK's wrappers around the failure of a callee; \<open>Errorf s op e\<close> is
  \<^verbatim>\<open>fmt.Errorf("%w: op: %v", s, e)\<close>, which wraps the sentinel \<open>s\<close> and keeps \<open>e\<close> as text
  only; \<open>Panic\<close> is a Go panic, which every caller below passes on unchanged.
\<close>

datatype go_error =
    ApplicationError string err_type bool details
  | ActivityError go_error
  | ChildWorkflowExecutionError go_error
  | CanceledError
  | Errorf sentinel string go_error
  | NamespaceNotActive string string string
  | ErrBlobSizeExceedsLimit
  | ErrMemoSizeExceedsLimit
  | Panic string
  | OtherError string

section \<open>service/history/api/create\_workflow\_util.go\<close>

subsection \<open>The shard context and the requests\<close>

text \<open>
  \<^verbatim>\<open>shard.Context\<close> is an interface; the functions below read the cluster metadata and
  the dynamic configuration from it. Its methods are parameters of the model: the fields
  of this record. \<open>mutableStateFaults\<close> says which calls on a mutable state created on
  this shard return an error, and which error.
\<close>

datatype ms_method =
    M_SetHistoryTree
  | M_AddWorkflowExecutionStartedEvent
  | M_AddWorkflowExecutionSignaled
  | M_AddFirstWorkflowTaskScheduled
  | M_AddWorkflowTaskStartedEvent

record ShardContext =
  GetCurrentClusterName :: string
  ClusterNameForFailoverVersion :: "bool \<Rightarrow> int64 \<Rightarrow> string"
  BlobSizeLimitWarn :: "string \<Rightarrow> int"
  BlobSizeLimitError :: "string \<Rightarrow> int"
  MemoSizeLimitWarn :: "string \<Rightarrow> int"
  MemoSizeLimitError :: "string \<Rightarrow> int"
  mutableStateFaults :: "ms_method \<Rightarrow> go_error option"

record Namespace =
  Name :: string
  IsGlobalNamespace :: bool
  FailoverVersion :: int64

text \<open>
  \<^verbatim>\<open>workflowservice.StartWorkflowExecutionRequest\<close>, the fields the functions below read.
\<close>

record StartWorkflowExecutionRequest =
  RequestId :: string
  TaskQueue :: string
  Identity :: string
  RequestEagerExecution :: bool
  WorkflowExecutionTimeout :: Duration
  WorkflowRunTimeout :: Duration

record ParentExecutionInfo =
  ParentWorkflowId :: string
  ParentRunId :: string

text \<open>
  \<^verbatim>\<open>historyservice.StartWorkflowExecutionRequest\<close>. A nil \<^verbatim>\<open>ParentExecutionInfo\<close> is
  \<open>None\<close>.
\<close>

record HistoryStartRequest =
  StartRequest :: StartWorkflowExecutionRequest
  ParentExecutionInfo :: "ParentExecutionInfo option"
  FirstWorkflowTaskBackoff :: Duration

text \<open>
  \<^verbatim>\<open>workflowservice.SignalWithStartWorkflowExecutionRequest\<close>, by the getters the source
  calls.
\<close>

record SignalWithStartRequest =
  GetRequestId :: string
  GetSignalName :: string
  GetSignalInput :: string
  GetIdentity :: string
  GetHeader :: string
  GetLinks :: string

subsection \<open>The mutable state\<close>

text \<open>
  Modelled from the spec: \<^verbatim>\<open>workflow.MutableState\<close> is an interface whose implementation
  is not among the source files. The spec describes it as the event-sourced state of one
  execution: an ordered event history, the current version, the namespace association,
  the markers of requested signals, and the first unit of work with the state machine
  \<open>none \<rightarrow> scheduled \<rightarrow> started\<close>. A deferred first task (the spec's cron/backoff policy)
  is a start request whose \<open>FirstWorkflowTaskBackoff\<close> is not zero. Every call that
  returns an error in the source returns the error \<open>faults\<close> holds for it, if any.
\<close>

datatype HistoryEvent =
    EventWorkflowExecutionStarted string string HistoryStartRequest
  | EventWorkflowExecutionSignaled string string string string string
  | EventWorkflowTaskScheduled
  | EventWorkflowTaskStarted int64 string string string

datatype WorkflowTaskState = TaskNone | TaskScheduled int64 | TaskStarted int64

record MutableState =
  GetNamespaceEntry :: Namespace
  GetCurrentVersion :: int64
  workflowId :: string
  runId :: string
  history :: "HistoryEvent list"
  signalRequestedIDs :: "string set"
  workflowTask :: WorkflowTaskState
  transferTasks :: "int64 list"
  faults :: "ms_method \<Rightarrow> go_error option"

definition NewMutableState :: "ShardContext \<Rightarrow> Namespace \<Rightarrow> string \<Rightarrow> string \<Rightarrow> MutableState" where
  "NewMutableState shard namespaceEntry workflowID runID =
     \<lparr>GetNamespaceEntry = namespaceEntry,
      GetCurrentVersion = FailoverVersion namespaceEntry,
      workflowId = workflowID,
      runId = runID,
      history = [],
      signalRequestedIDs = {},
      workflowTask = TaskNone,
      transferTasks = [],
      faults = mutableStateFaults shard\<rparr>"

definition SetHistoryTree ::
  "MutableState \<Rightarrow> Duration \<Rightarrow> Duration \<Rightarrow> string \<Rightarrow> go_error + MutableState" where
  "SetHistoryTree ms executionTimeout runTimeout treeID =
     (case faults ms M_SetHistoryTree of Some err \<Rightarrow> Inl err | None \<Rightarrow> Inr ms)"

definition AddWorkflowExecutionStartedEvent ::
  "MutableState \<Rightarrow> string \<times> string \<Rightarrow> HistoryStartRequest
     \<Rightarrow> go_error + (HistoryEvent \<times> MutableState)" where
  "AddWorkflowExecutionStartedEvent ms execution startRequest =
     (case faults ms M_AddWorkflowExecutionStartedEvent of
        Some err \<Rightarrow> Inl err
      | None \<Rightarrow>
          (let event = EventWorkflowExecutionStarted (fst execution) (snd execution) startRequest
           in Inr (event, ms\<lparr>history := history ms @ [event]\<rparr>)))"

definition AddSignalRequested :: "MutableState \<Rightarrow> string \<Rightarrow> MutableState" where
  "AddSignalRequested ms requestID =
     ms\<lparr>signalRequestedIDs := insert requestID (signalRequestedIDs ms)\<rparr>"

definition AddWorkflowExecutionSignaled ::
  "MutableState \<Rightarrow> string \<Rightarrow> string \<Rightarrow> string \<Rightarrow> string \<Rightarrow> string
     \<Rightarrow> go_error + (HistoryEvent \<times> MutableState)" where
  "AddWorkflowExecutionSignaled ms signalName input identity header links =
     (case faults ms M_AddWorkflowExecutionSignaled of
        Some err \<Rightarrow> Inl err
      | None \<Rightarrow>
          (let event = EventWorkflowExecutionSignaled signalName input identity header links
           in Inr (event, ms\<lparr>history := history ms @ [event]\<rparr>)))"

definition firstWorkflowTaskBackoff :: "HistoryEvent \<Rightarrow> Duration" where
  "firstWorkflowTaskBackoff event =
     (case event of
        EventWorkflowExecutionStarted _ _ request \<Rightarrow> FirstWorkflowTaskBackoff request
      | _ \<Rightarrow> 0)"

text \<open>
  The first task is scheduled unless it is deferred; its scheduled-event id is the id of
  the event appended for it. With \<open>bypassTaskGeneration\<close> no task for the remote
  dispatch queue is generated. (The spec does not say which id a deferred first task
  returns; the model returns 0.)
\<close>

definition AddFirstWorkflowTaskScheduled ::
  "MutableState \<Rightarrow> HistoryEvent \<Rightarrow> bool \<Rightarrow> go_error + (int64 \<times> MutableState)" where
  "AddFirstWorkflowTaskScheduled ms startEvent bypassTaskGeneration =
     (case faults ms M_AddFirstWorkflowTaskScheduled of
        Some err \<Rightarrow> Inl err
      | None \<Rightarrow>
          if firstWorkflowTaskBackoff startEvent \<noteq> 0 then Inr (0, ms)
          else
            (let scheduledEventID = of_nat (length (history ms)) + 1
             in Inr (scheduledEventID,
                  ms\<lparr>history := history ms @ [EventWorkflowTaskScheduled],
                     workflowTask := TaskScheduled scheduledEventID,
                     transferTasks :=
                       (if bypassTaskGeneration then transferTasks ms
                        else transferTasks ms @ [scheduledEventID])\<rparr>)))"

definition HasPendingWorkflowTask :: "MutableState \<Rightarrow> bool" where
  "HasPendingWorkflowTask ms = (workflowTask ms \<noteq> TaskNone)"

definition AddWorkflowTaskStartedEvent ::
  "MutableState \<Rightarrow> int64 \<Rightarrow> string \<Rightarrow> string \<Rightarrow> string \<Rightarrow> go_error + MutableState" where
  "AddWorkflowTaskStartedEvent ms scheduledEventID requestID taskQueue identity =
     (case faults ms M_AddWorkflowTaskStartedEvent of
        Some err \<Rightarrow> Inl err
      | None \<Rightarrow>
          (case workflowTask ms of
             TaskScheduled i \<Rightarrow>
               if i = scheduledEventID then
                 Inr (ms\<lparr>history := history ms
                             @ [EventWorkflowTaskStarted scheduledEventID requestID taskQueue identity],
                         workflowTask := TaskStarted scheduledEventID\<rparr>)
               else Inl (OtherError ''workflow task not found'')
           | _ \<Rightarrow> Inl (OtherError ''workflow task not found'')))"

subsection \<open>CreateMutableState, GenerateFirstWorkflowTask, NewWorkflowWithSignal\<close>

definition CreateMutableState ::
  "ShardContext \<Rightarrow> Namespace \<Rightarrow> Duration \<Rightarrow> Duration \<Rightarrow> string \<Rightarrow> string
     \<Rightarrow> go_error + MutableState" where
  "CreateMutableState shard namespaceEntry executionTimeout runTimeout workflowID runID =
     (let newMutableState = NewMutableState shard namespaceEntry workflowID runID
      in case SetHistoryTree newMutableState executionTimeout runTimeout runID of
           Inl err \<Rightarrow> Inl err
         | Inr ms \<Rightarrow> Inr ms)"

definition GenerateFirstWorkflowTask ::
  "MutableState \<Rightarrow> ParentExecutionInfo option \<Rightarrow> HistoryEvent \<Rightarrow> bool
     \<Rightarrow> go_error + (int64 \<times> MutableState)" where
  "GenerateFirstWorkflowTask mutableState parentInfo startEvent bypassTaskGeneration =
     (case parentInfo of
        None \<Rightarrow> AddFirstWorkflowTaskScheduled mutableState startEvent bypassTaskGeneration
      | Some _ \<Rightarrow> Inr (0, mutableState))"

text \<open>
  Lines 68 to 117 of \<^verbatim>\<open>NewWorkflowWithSignal\<close>: the state is created, the started event
  and the optional signal are added, and the first workflow task is generated. The
  result is the scheduled-event id and the state at that point.
\<close>

definition firstWorkflowTaskGenerated ::
  "ShardContext \<Rightarrow> Namespace \<Rightarrow> string \<Rightarrow> string \<Rightarrow> HistoryStartRequest
     \<Rightarrow> SignalWithStartRequest option \<Rightarrow> go_error + (int64 \<times> MutableState)" where
  "firstWorkflowTaskGenerated shard namespaceEntry workflowID runID startRequest
       signalWithStartRequest =
     (case CreateMutableState shard namespaceEntry
             (WorkflowExecutionTimeout (StartRequest startRequest))
             (WorkflowRunTimeout (StartRequest startRequest)) workflowID runID of
        Inl err \<Rightarrow> Inl err
      | Inr newMutableState \<Rightarrow>
          (case AddWorkflowExecutionStartedEvent newMutableState (workflowID, runID)
                  startRequest of
             Inl err \<Rightarrow> Inl err
           | Inr (startEvent, ms1) \<Rightarrow>
               (case (case signalWithStartRequest of
                        None \<Rightarrow> Inr ms1
                      | Some signal \<Rightarrow>
                          (let ms2 = (if GetRequestId signal \<noteq> ''''
                                      then AddSignalRequested ms1 (GetRequestId signal)
                                      else ms1)
                           in case AddWorkflowExecutionSignaled ms2 (GetSignalName signal)
                                     (GetSignalInput signal) (GetIdentity signal)
                                     (GetHeader signal) (GetLinks signal) of
                                Inl err \<Rightarrow> Inl err
                              | Inr (_, ms3) \<Rightarrow> Inr ms3)) of
                  Inl err \<Rightarrow> Inl err
                | Inr ms3 \<Rightarrow>
                    GenerateFirstWorkflowTask ms3 (ParentExecutionInfo startRequest) startEvent
                      (RequestEagerExecution (StartRequest startRequest)))))"

definition NewWorkflowWithSignal ::
  "ShardContext \<Rightarrow> Namespace \<Rightarrow> string \<Rightarrow> string \<Rightarrow> HistoryStartRequest
     \<Rightarrow> SignalWithStartRequest option \<Rightarrow> go_error + MutableState" where
  "NewWorkflowWithSignal shard namespaceEntry workflowID runID startRequest
       signalWithStartRequest =
     (case firstWorkflowTaskGenerated shard namespaceEntry workflowID runID startRequest
             signalWithStartRequest of
        Inl err \<Rightarrow> Inl err
      | Inr (scheduledEventID, newMutableState) \<Rightarrow>
          if RequestEagerExecution (StartRequest startRequest)
               \<and> HasPendingWorkflowTask newMutableState
          then
            (case AddWorkflowTaskStartedEvent newMutableState scheduledEventID
                    (RequestId (StartRequest startRequest))
                    (TaskQueue (StartRequest startRequest))
                    (Identity (StartRequest startRequest)) of
               Inl err \<Rightarrow> Inl err
             | Inr ms \<Rightarrow> Inr ms)
          else Inr newMutableState)"

subsection \<open>NewWorkflowVersionCheck\<close>

text \<open>
  \<^verbatim>\<open>common.EmptyVersion\<close> is declared outside the source files, so it is the first
  parameter.
\<close>

definition NewWorkflowVersionCheck ::
  "int64 \<Rightarrow> ShardContext \<Rightarrow> int64 \<Rightarrow> MutableState \<Rightarrow> go_error option" where
  "NewWorkflowVersionCheck EmptyVersion shard prevLastWriteVersion newMutableState =
     (if prevLastWriteVersion = EmptyVersion then None
      else if sint (GetCurrentVersion newMutableState) < sint prevLastWriteVersion then
        (let namespaceEntry = GetNamespaceEntry newMutableState;
             clusterName =
               ClusterNameForFailoverVersion shard (IsGlobalNamespace namespaceEntry)
                 prevLastWriteVersion
         in Some (NamespaceNotActive (Name namespaceEntry) (GetCurrentClusterName shard)
              clusterName))
      else None)"

subsection \<open>ValidateStart\<close>

text \<open>
  What a call emits to the metrics handler and the logger: a metric recorded with the
  operation tag and a value, or a warning.
\<close>

datatype metric = MemoSize | EventBlobSize

datatype emission = MetricRecord metric string int | LogWarn string

text \<open>
  Modelled from the spec: \<^verbatim>\<open>common.CheckEventBlobSizeLimit\<close> is not among the source
  files. The spec: below the warn threshold the check passes silently; between warn and
  error it passes and emits a size metric and a log entry; at or above the error
  threshold it fails with the "blob too large" error.
\<close>

definition CheckEventBlobSizeLimit ::
  "int \<Rightarrow> int \<Rightarrow> int \<Rightarrow> string \<Rightarrow> emission list \<times> go_error option" where
  "CheckEventBlobSizeLimit actualSize warnLimit errorLimit operation =
     (if actualSize < warnLimit then ([], None)
      else if actualSize < errorLimit then
        ([MetricRecord EventBlobSize operation actualSize,
          LogWarn ''Blob data size exceeds the warning limit.''], None)
      else ([], Some ErrBlobSizeExceedsLimit))"

text \<open>
  \<^verbatim>\<open>ValidateStart\<close> returns what it emitted, in order, and its error.
\<close>

definition ValidateStart ::
  "ShardContext \<Rightarrow> Namespace \<Rightarrow> string \<Rightarrow> int \<Rightarrow> int \<Rightarrow> string
     \<Rightarrow> emission list \<times> go_error option" where
  "ValidateStart shard namespaceEntry workflowID workflowInputSize workflowMemoSize operation =
     (let namespaceName = Name namespaceEntry;
          (out1, err1) = CheckEventBlobSizeLimit workflowInputSize
                           (BlobSizeLimitWarn shard namespaceName)
                           (BlobSizeLimitError shard namespaceName) operation
      in case err1 of
           Some err \<Rightarrow> (out1, Some err)
         | None \<Rightarrow>
             (let out2 = [MetricRecord MemoSize operation workflowMemoSize];
                  (out3, err3) = CheckEventBlobSizeLimit workflowMemoSize
                                   (MemoSizeLimitWarn shard namespaceName)
                                   (MemoSizeLimitError shard namespaceName) operation
              in case err3 of
                   Some err \<Rightarrow> (out1 @ out2 @ out3, Some ErrMemoSizeExceedsLimit)
                 | None \<Rightarrow> (out1 @ out2 @ out3, None)))"

section \<open>service/worker/deletenamespace/reclaimresources/workflow.go\<close>

subsection \<open>Parameters, results and the runtime\<close>

text \<open>
  \<^verbatim>\<open>deleteexecutions.DeleteExecutionsParams\<close> is embedded in the workflow's parameters.
  Its \<^verbatim>\<open>Config\<close> is only passed on to the child workflow, so its type is a parameter
  \<open>'c\<close>. Namespace names and ids are strings, empty when \<^verbatim>\<open>IsEmpty()\<close>.
\<close>

record 'c DeleteExecutionsParams =
  Namespace :: string
  NamespaceID :: string
  Config :: 'c

record 'c ReclaimResourcesParams =
  DeleteExecutionsParams :: "'c DeleteExecutionsParams"
  NamespaceDeleteDelay :: Duration

record ReclaimResourcesResult =
  DeleteSuccessCount :: int
  DeleteErrorCount :: int
  NamespaceDeleted :: bool

record DeleteExecutionsResult =
  SuccessCount :: int
  ErrorCount :: int

datatype ctx = RootCtx | CancelableCtx nat

datatype update_message = DelayRemoved | DelayUpdated Duration

datatype counter =
    ReclaimResourcesNamespaceDeleteSuccessCount
  | ReclaimResourcesNamespaceDeleteFailureCount
  | ReclaimResourcesDeleteExecutionsSuccessCount
  | ReclaimResourcesDeleteExecutionsFailureCount

text \<open>
  What one run of the workflow asks of the SDK and of its callees, in order: the trace of
  the run. \<open>WithCancel k\<close> creates the \<open>k\<close>-th cancelable context and \<open>Cancel k\<close> calls its
  cancel function; \<open>Sleep c d\<close> is \<^verbatim>\<open>workflow.Sleep\<close> on context \<open>c\<close>. An update request is
  either rejected by the validator or completed by the handler; \<open>UpdateCompleted b m\<close> is
  the handler's reply \<open>m\<close>, with the prefix "Existing namespace delete delay timer is
  cancelled." when \<open>b\<close>. The logger's calls and the options of the contexts (task queue,
  retry policies, timeouts) are left out of the trace.
\<close>

datatype 'c action =
    SetUpdateHandlerWithOptions
  | Sleep ctx Duration
  | GetVersionCall string int int
  | RecordVersionMarker string int
  | IsAdvancedVisibilityActivity string
  | CountExecutionsAdvVisibilityActivity string string
  | DeleteExecutionsWorkflow "'c DeleteExecutionsParams"
  | EnsureNoExecutionsAdvVisibilityActivity string string int
  | DeleteNamespaceActivity string string
  | WithCancel nat
  | Cancel nat
  | UpdateRejected go_error
  | UpdateCompleted bool update_message
  | CounterInc counter int

text \<open>
  What the runtime and the callees answer in one run: the parameters of the model.
  \<open>versionMarker\<close> is the version recorded in the instance's history for the change id,
  if any, and \<open>isReplaying\<close> says whether the run replays a recorded history.
  \<open>updatesBeforeDelay\<close> are the update requests delivered while steps 0 and 1 run (the
  trace lists them after the timer of step 0); \<open>updatesDuringDelay\<close> holds, for each wait
  of step 2 in order, the requests delivered while that wait is outstanding (none when the
  list is used up); \<open>updatesDuringDeleteNamespace\<close> are those delivered during step 3.
  \<^verbatim>\<open>time.ParseDuration\<close>, the method \<^verbatim>\<open>Config.ApplyDefaults\<close> and the constant
  \<^verbatim>\<open>deleteexecutions.WorkflowName\<close> are declared outside the source files.
\<close>

record 'c WorkflowRun =
  ApplyDefaults :: "'c \<Rightarrow> 'c"
  DeleteExecutionsWorkflowName :: string
  ParseDuration :: "string \<Rightarrow> go_error + Duration"
  setUpdateHandlerError :: "go_error option"
  cacheRefreshSleepError :: "go_error option"
  versionMarker :: "int option"
  isReplaying :: bool
  isAdvancedVisibilityResult :: "go_error + bool"
  countExecutionsResult :: "go_error + int64"
  deleteExecutionsResult :: "go_error + DeleteExecutionsResult"
  ensureNoExecutionsResult :: "go_error option"
  deleteNamespaceResult :: "go_error option"
  updatesBeforeDelay :: "string list"
  updatesDuringDelay :: "string list list"
  updatesDuringDeleteNamespace :: "string list"

subsection \<open>The SDK's functions\<close>

definition DefaultVersion :: int where
  "DefaultVersion = - 1"

text \<open>
  \<^verbatim>\<open>workflow.GetVersion\<close> of the Go SDK: a version recorded for the change id is returned;
  without one, a replay gets \<open>DefaultVersion\<close>, and a first execution records
  \<open>maxSupported\<close> and returns it. A version outside the supported range is a panic.
\<close>

definition GetVersion ::
  "'c WorkflowRun \<Rightarrow> string \<Rightarrow> int \<Rightarrow> int \<Rightarrow> 'c action list \<times> (go_error + int)" where
  "GetVersion run changeID minSupported maxSupported =
     (let (recorded, version) =
            (case versionMarker run of
               Some v \<Rightarrow> ([], v)
             | None \<Rightarrow>
                 if isReplaying run then ([], DefaultVersion)
                 else ([RecordVersionMarker changeID maxSupported], maxSupported))
      in if version < minSupported \<or> maxSupported < version
         then ([GetVersionCall changeID minSupported maxSupported],
               Inl (Panic ''unsupported version''))
         else (GetVersionCall changeID minSupported maxSupported # recorded, Inr version))"

text \<open>
  \<^verbatim>\<open>errors.As(err, &appErr)\<close>: the first application error in the chain of \<open>err\<close>.
\<close>

fun asApplicationError :: "go_error \<Rightarrow> go_error option" where
  "asApplicationError (ApplicationError message t nonRetryable d) =
     Some (ApplicationError message t nonRetryable d)"
| "asApplicationError (ActivityError cause) = asApplicationError cause"
| "asApplicationError (ChildWorkflowExecutionError cause) = asApplicationError cause"
| "asApplicationError _ = None"

text \<open>
  \<^verbatim>\<open>temporal.NewApplicationError\<close> makes a retryable error,
  \<^verbatim>\<open>temporal.NewNonRetryableApplicationError\<close> a non-retryable one (its cause is not kept
  in the model).
\<close>

definition NewApplicationError :: "string \<Rightarrow> err_type \<Rightarrow> int \<Rightarrow> go_error" where
  "NewApplicationError message t d = ApplicationError message t False (IntDetails d)"

definition NewNonRetryableApplicationError :: "string \<Rightarrow> err_type \<Rightarrow> go_error" where
  "NewNonRetryableApplicationError message t = ApplicationError message t True NoDetails"

subsection \<open>validateParams\<close>

definition validateParams ::
  "'c WorkflowRun \<Rightarrow> 'c ReclaimResourcesParams \<Rightarrow> 'c ReclaimResourcesParams \<times> go_error option" where
  "validateParams run params =
     (if NamespaceID (DeleteExecutionsParams params) = '''' then
        (params, Some (NewNonRetryableApplicationError ''namespace ID is required''
                         (OtherErrType '''')))
      else if Namespace (DeleteExecutionsParams params) = '''' then
        (params, Some (NewNonRetryableApplicationError ''namespace is required''
                         (OtherErrType '''')))
      else
        (params\<lparr>DeleteExecutionsParams :=
            (DeleteExecutionsParams params)
              \<lparr>Config := ApplyDefaults run (Config (DeleteExecutionsParams params))\<rparr>\<rparr>,
         None))"

subsection \<open>deleteWorkflowExecutions\<close>

text \<open>
  The count the source reads from the details of the application error:
  \<^verbatim>\<open>notDeletedCount\<close> starts at 0 and is set only when the error has details that decode
  into an integer (the decoding error is dropped).
\<close>

definition notDeletedCountOf :: "details \<Rightarrow> int" where
  "notDeletedCountOf d = (case d of IntDetails n \<Rightarrow> n | _ \<Rightarrow> 0)"

text \<open>
  The function returns its trace, its result and its error.
\<close>

definition deleteWorkflowExecutions ::
  "'c WorkflowRun \<Rightarrow> 'c ReclaimResourcesParams
     \<Rightarrow> 'c action list \<times> ReclaimResourcesResult \<times> go_error option" where
  "deleteWorkflowExecutions run params =
     (let result = \<lparr>DeleteSuccessCount = 0, DeleteErrorCount = 0, NamespaceDeleted = False\<rparr>;
          namespace = Namespace (DeleteExecutionsParams params);
          namespaceID = NamespaceID (DeleteExecutionsParams params);
          (t0, v) = GetVersion run ''remove-std-vis'' DefaultVersion 0
      in case v of
           Inl panic \<Rightarrow> (t0, result, Some panic)
         | Inr v \<Rightarrow>
             (let (t1, err1) =
                    (if v = DefaultVersion then
                       (case isAdvancedVisibilityResult run of
                          Inl err \<Rightarrow>
                            (t0 @ [IsAdvancedVisibilityActivity namespace],
                             Some (Errorf ErrUnableToExecuteActivity
                                     ''IsAdvancedVisibilityActivity'' err))
                        | Inr isAdvancedVisibility \<Rightarrow>
                            (t0 @ [IsAdvancedVisibilityActivity namespace], None))
                     else (t0, None))
              in case err1 of
                   Some err \<Rightarrow> (t1, result, Some err)
                 | None \<Rightarrow>
                     (let t4 = t1 @ [CountExecutionsAdvVisibilityActivity namespaceID namespace]
                      in case countExecutionsResult run of
                           Inl err \<Rightarrow>
                             (t4, result,
                              Some (Errorf ErrUnableToExecuteActivity
                                      ''CountExecutionsAdvVisibilityActivity'' err))
                         | Inr executionsCount \<Rightarrow>
                             if executionsCount = 0 then (t4, result, None)
                             else
                               (let t2 = t4 @ [DeleteExecutionsWorkflow
                                                 (DeleteExecutionsParams params)]
                                in case deleteExecutionsResult run of
                                     Inl err \<Rightarrow>
                                       (t2, result,
                                        Some (Errorf ErrUnableToExecuteChildWorkflow
                                                (DeleteExecutionsWorkflowName run) err))
                                   | Inr der \<Rightarrow>
                                       (let result' =
                                              result\<lparr>DeleteSuccessCount := SuccessCount der,
                                                     DeleteErrorCount := ErrorCount der\<rparr>;
                                            t3 = t2 @ [EnsureNoExecutionsAdvVisibilityActivity
                                                         namespaceID namespace (ErrorCount der)]
                                        in case ensureNoExecutionsResult run of
                                             None \<Rightarrow> (t3, result', None)
                                           | Some err \<Rightarrow>
                                               (case asApplicationError err of
                                                  Some (ApplicationError message t _ d) \<Rightarrow>
                                                    if t = ExecutionsStillExistErrType
                                                         \<or> t = NoProgressErrType
                                                         \<or> t = NotDeletedExecutionsStillExistErrType
                                                    then
                                                      (t3, result',
                                                       Some (NewApplicationError message t
                                                               (notDeletedCountOf d)))
                                                    else
                                                      (t3, result',
                                                       Some (Errorf ErrUnableToExecuteActivity
                                                               ''EnsureNoExecutionsActivity'' err))
                                                | _ \<Rightarrow>
                                                    (t3, result',
                                                     Some (Errorf ErrUnableToExecuteActivity
                                                             ''EnsureNoExecutionsActivity''
                                                             err))))))))"

subsection \<open>The update handler and its validator\<close>

text \<open>
  The two variables of \<^verbatim>\<open>ReclaimResourcesWorkflow\<close> that the update handler shares with
  the main sequence. \<open>cancelDeleteDelay\<close> is nil (\<open>None\<close>) or the cancel function of the
  \<open>k\<close>-th cancelable context.
\<close>

record DelayState =
  namespaceDeleteDelay :: Duration
  cancelDeleteDelay :: "nat option"

definition updateValidator :: "'c WorkflowRun \<Rightarrow> string \<Rightarrow> go_error option" where
  "updateValidator run newNamespaceDeleteDelayStr =
     (if newNamespaceDeleteDelayStr = '''' then
        Some (NewNonRetryableApplicationError ''delay duration is required''
                ValidationErrorErrType)
      else
        (case ParseDuration run newNamespaceDeleteDelayStr of
           Inl err \<Rightarrow>
             Some (NewNonRetryableApplicationError ''unable to parse delay duration''
                     ValidationErrorErrType)
         | Inr newDuration \<Rightarrow>
             if newDuration < 0 then
               Some (NewNonRetryableApplicationError ''delay duration must be positive''
                       ValidationErrorErrType)
             else if newDuration > 30 * 24 * Hour then
               Some (NewNonRetryableApplicationError
                       ''delay duration must be less than 30 days'' ValidationErrorErrType)
             else None))"

text \<open>
  The handler returns the new state, what it asked of the SDK, and its reply.
  \<^verbatim>\<open>time.ParseDuration\<close> returns 0 with its error.
\<close>

definition updateHandler ::
  "'c WorkflowRun \<Rightarrow> DelayState \<Rightarrow> string \<Rightarrow> DelayState \<times> 'c action list \<times> bool \<times> update_message" where
  "updateHandler run st newNamespaceDeleteDelayStr =
     (let d = (case ParseDuration run newNamespaceDeleteDelayStr of Inl _ \<Rightarrow> 0 | Inr d \<Rightarrow> d);
          st' = st\<lparr>namespaceDeleteDelay := d\<rparr>;
          updateResult = (if d = 0 then DelayRemoved else DelayUpdated d)
      in case cancelDeleteDelay st' of
           Some k \<Rightarrow> (st', [Cancel k], True, updateResult)
         | None \<Rightarrow> (st', [], False, updateResult))"

text \<open>
  One update request delivered to the instance: the validator, then the handler.
\<close>

definition deliverUpdate ::
  "'c WorkflowRun \<Rightarrow> DelayState \<Rightarrow> string \<Rightarrow> DelayState \<times> 'c action list" where
  "deliverUpdate run st request =
     (case updateValidator run request of
        Some err \<Rightarrow> (st, [UpdateRejected err])
      | None \<Rightarrow>
          (let (st', acts, cancelled, message) = updateHandler run st request
           in (st', acts @ [UpdateCompleted cancelled message])))"

fun deliverUpdates ::
  "'c WorkflowRun \<Rightarrow> DelayState \<Rightarrow> string list \<Rightarrow> DelayState \<times> 'c action list" where
  "deliverUpdates run st [] = (st, [])"
| "deliverUpdates run st (request # requests) =
     (let (st1, t1) = deliverUpdate run st request;
          (st2, t2) = deliverUpdates run st1 requests
      in (st2, t1 @ t2))"

subsection \<open>ReclaimResourcesWorkflow\<close>

definition namespaceCacheRefreshDelay :: Duration where
  "namespaceCacheRefreshDelay = 11 * Second"

text \<open>
  Step 2, the loop \<^verbatim>\<open>for namespaceDeleteDelay > 0\<close>. \<open>k\<close> counts the cancelable contexts
  created so far; the last argument holds the update requests delivered during each wait.
  The result of \<^verbatim>\<open>workflow.Sleep\<close> is dropped by the source, so a wait that elapsed and a
  wait that was cancelled continue alike. When no requests are left the wait elapses with
  the delay at 0, and the loop ends.
\<close>

fun delayLoop ::
  "'c WorkflowRun \<Rightarrow> nat \<Rightarrow> DelayState \<Rightarrow> string list list \<Rightarrow> DelayState \<times> 'c action list" where
  "delayLoop run k st [] =
     (if namespaceDeleteDelay st > 0 then
        (let ndd = namespaceDeleteDelay st;
             st1 = st\<lparr>cancelDeleteDelay := Some k, namespaceDeleteDelay := 0\<rparr>
         in (st1, [WithCancel k, Sleep (CancelableCtx k) ndd]))
      else (st, []))"
| "delayLoop run k st (requests # later) =
     (if namespaceDeleteDelay st > 0 then
        (let ndd = namespaceDeleteDelay st;
             st1 = st\<lparr>cancelDeleteDelay := Some k, namespaceDeleteDelay := 0\<rparr>;
             (st2, t2) = deliverUpdates run st1 requests;
             (st3, t3) = delayLoop run (Suc k) st2 later
         in (st3, [WithCancel k, Sleep (CancelableCtx k) ndd] @ t2 @ t3))
      else (st, []))"

text \<open>
  The deferred function: the counters emitted when the workflow function returns.
\<close>

definition deferredMetrics :: "ReclaimResourcesResult \<Rightarrow> 'c action list" where
  "deferredMetrics result =
     [CounterInc (if NamespaceDeleted result
                  then ReclaimResourcesNamespaceDeleteSuccessCount
                  else ReclaimResourcesNamespaceDeleteFailureCount) 1]
     @ (if DeleteSuccessCount result > 0
        then [CounterInc ReclaimResourcesDeleteExecutionsSuccessCount (DeleteSuccessCount result)]
        else [])
     @ (if DeleteErrorCount result > 0
        then [CounterInc ReclaimResourcesDeleteExecutionsFailureCount (DeleteErrorCount result)]
        else [])"

text \<open>
  The workflow returns its trace, its result and its error.
\<close>

definition ReclaimResourcesWorkflow ::
  "'c WorkflowRun \<Rightarrow> 'c ReclaimResourcesParams
     \<Rightarrow> 'c action list \<times> ReclaimResourcesResult \<times> go_error option" where
  "ReclaimResourcesWorkflow run params0 =
     (let result = \<lparr>DeleteSuccessCount = 0, DeleteErrorCount = 0, NamespaceDeleted = False\<rparr>;
          (params, invalid) = validateParams run params0
      in case invalid of
           Some err \<Rightarrow> ([], result, Some err)
         | None \<Rightarrow>
             (let st0 = \<lparr>namespaceDeleteDelay = NamespaceDeleteDelay params,
                         cancelDeleteDelay = None\<rparr>
              in case setUpdateHandlerError run of
                   Some err \<Rightarrow>
                     ([SetUpdateHandlerWithOptions] @ deferredMetrics result, result,
                      Some (Errorf ErrUnableToSetUpdateHandler '''' err))
                 | None \<Rightarrow>
                     (let (st1, u1) = deliverUpdates run st0 (updatesBeforeDelay run);
                          t0 = [SetUpdateHandlerWithOptions,
                                Sleep RootCtx namespaceCacheRefreshDelay] @ u1
                      in case cacheRefreshSleepError run of
                           Some err \<Rightarrow> (t0 @ deferredMetrics result, result, Some err)
                         | None \<Rightarrow>
                             (let (t1, result1, err1) = deleteWorkflowExecutions run params
                              in case err1 of
                                   Some err \<Rightarrow>
                                     (t0 @ t1 @ deferredMetrics result1, result1, Some err)
                                 | None \<Rightarrow>
                                     (let (st2, t2) = delayLoop run 0 st1 (updatesDuringDelay run);
                                          (st3, u3) = deliverUpdates run st2
                                                        (updatesDuringDeleteNamespace run);
                                          t3 = t0 @ t1 @ t2
                                               @ [DeleteNamespaceActivity
                                                    (NamespaceID (DeleteExecutionsParams params))
                                                    (Namespace (DeleteExecutionsParams params))]
                                               @ u3
                                      in case deleteNamespaceResult run of
                                           Some err \<Rightarrow>
                                             (t3 @ deferredMetrics result1, result1,
                                              Some (Errorf ErrUnableToExecuteActivity
                                                      ''DeleteNamespaceActivity'' err))
                                         | None \<Rightarrow>
                                             (let result2 = result1\<lparr>NamespaceDeleted := True\<rparr>
                                              in (t3 @ deferredMetrics result2, result2,
                                                  None)))))))"

section \<open>Notions used in the statements\<close>

text \<open>
  The events that initialization puts first in the history: the started event, and the
  signaled event when a signal came with the request.
\<close>

definition initialEvents ::
  "string \<Rightarrow> string \<Rightarrow> HistoryStartRequest \<Rightarrow> SignalWithStartRequest option
     \<Rightarrow> HistoryEvent list" where
  "initialEvents workflowID runID request signal =
     EventWorkflowExecutionStarted workflowID runID request
     # (case signal of
          None \<Rightarrow> []
        | Some s \<Rightarrow>
            [EventWorkflowExecutionSignaled (GetSignalName s) (GetSignalInput s)
               (GetIdentity s) (GetHeader s) (GetLinks s)])"

section \<open>Concrete inputs\<close>

text \<open>
  A shard with blob limits 512/2048 and memo limits 128/256 whose mutable states never
  fail, a global namespace, and requests: a top-level start with eager dispatch, the same
  start as a child execution, and two signals, one without a request id.
\<close>

definition shard0 :: ShardContext where
  "shard0 =
     \<lparr>GetCurrentClusterName = ''active'',
      ClusterNameForFailoverVersion = (\<lambda>isGlobal version. ''standby''),
      BlobSizeLimitWarn = (\<lambda>namespaceName. 512),
      BlobSizeLimitError = (\<lambda>namespaceName. 2048),
      MemoSizeLimitWarn = (\<lambda>namespaceName. 128),
      MemoSizeLimitError = (\<lambda>namespaceName. 256),
      mutableStateFaults = (\<lambda>method. None)\<rparr>"

definition acme :: Namespace where
  "acme = \<lparr>Name = ''acme'', IsGlobalNamespace = True, FailoverVersion = 10\<rparr>"

definition eagerStart :: HistoryStartRequest where
  "eagerStart =
     \<lparr>StartRequest =
        \<lparr>RequestId = ''req-1'', TaskQueue = ''tq'', Identity = ''starter'',
         RequestEagerExecution = True, WorkflowExecutionTimeout = 0,
         WorkflowRunTimeout = 0\<rparr>,
      ParentExecutionInfo = None,
      FirstWorkflowTaskBackoff = 0\<rparr>"

definition childStart :: HistoryStartRequest where
  "childStart =
     eagerStart\<lparr>ParentExecutionInfo :=
                  Some \<lparr>ParentWorkflowId = ''parent'', ParentRunId = ''parent-run''\<rparr>\<rparr>"

definition signal0 :: SignalWithStartRequest where
  "signal0 =
     \<lparr>GetRequestId = ''sig-1'', GetSignalName = ''go'', GetSignalInput = ''payload'',
      GetIdentity = ''sender'', GetHeader = '''', GetLinks = ''''\<rparr>"

text \<open>
  A run of the reclaim-resources workflow on namespace "acme" with 5 executions: a first
  execution (no replay), every callee succeeds, the child workflow deletes all 5.
  \<open>parseDurationTable\<close> is \<^verbatim>\<open>time.ParseDuration\<close> on the strings the inputs use.
\<close>

definition parseDurationTable :: "string \<Rightarrow> go_error + Duration" where
  "parseDurationTable s =
     (if s = ''0s'' then Inr 0
      else if s = ''3s'' then Inr (3 * Second)
      else if s = ''5s'' then Inr (5 * Second)
      else Inl (OtherError ''time: invalid duration''))"

definition run0 :: "unit WorkflowRun" where
  "run0 =
     \<lparr>ApplyDefaults = (\<lambda>config. config),
      DeleteExecutionsWorkflowName = ''delete-executions'',
      ParseDuration = parseDurationTable,
      setUpdateHandlerError = None,
      cacheRefreshSleepError = None,
      versionMarker = None,
      isReplaying = False,
      isAdvancedVisibilityResult = Inr True,
      countExecutionsResult = Inr 5,
      deleteExecutionsResult = Inr \<lparr>SuccessCount = 5, ErrorCount = 0\<rparr>,
      ensureNoExecutionsResult = None,
      deleteNamespaceResult = None,
      updatesBeforeDelay = [],
      updatesDuringDelay = [],
      updatesDuringDeleteNamespace = []\<rparr>"

definition params0 :: "unit ReclaimResourcesParams" where
  "params0 =
     \<lparr>DeleteExecutionsParams = \<lparr>Namespace = ''acme'', NamespaceID = ''ns-id'', Config = ()\<rparr>,
      NamespaceDeleteDelay = 0\<rparr>"

section \<open>Properties of create\_workflow\_util.go\<close>

subsection \<open>The state when the first workflow task has been generated\<close>

lemma CreateMutableState_fresh:
  assumes "CreateMutableState shard namespaceEntry et rt workflowID runID = Inr ms"
  shows "ms = NewMutableState shard namespaceEntry workflowID runID"
  using assms
  by (auto simp: CreateMutableState_def SetHistoryTree_def Let_def split: option.splits)

lemma AddWorkflowExecutionStartedEvent_Inr:
  assumes "AddWorkflowExecutionStartedEvent ms execution request = Inr (event, ms')"
  shows "event = EventWorkflowExecutionStarted (fst execution) (snd execution) request
         \<and> ms' = ms\<lparr>history := history ms @ [event]\<rparr>"
  using assms
  by (auto simp: AddWorkflowExecutionStartedEvent_def Let_def split: option.splits)

lemma AddWorkflowExecutionSignaled_Inr:
  assumes "AddWorkflowExecutionSignaled ms name input identity header links = Inr (event, ms')"
  shows "event = EventWorkflowExecutionSignaled name input identity header links
         \<and> ms' = ms\<lparr>history := history ms @ [event]\<rparr>"
  using assms
  by (auto simp: AddWorkflowExecutionSignaled_def Let_def split: option.splits)

lemma GenerateFirstWorkflowTask_task:
  assumes "GenerateFirstWorkflowTask ms parentInfo startEvent bypass = Inr (sid, ms')"
    and "workflowTask ms = TaskNone"
  shows "(workflowTask ms' = TaskNone \<or> workflowTask ms' = TaskScheduled sid)
         \<and> (parentInfo \<noteq> None \<longrightarrow> ms' = ms \<and> sid = 0)
         \<and> signalRequestedIDs ms' = signalRequestedIDs ms
         \<and> (\<exists>rest. history ms' = history ms @ rest)"
  using assms
  by (auto simp: GenerateFirstWorkflowTask_def AddFirstWorkflowTaskScheduled_def Let_def
      split: option.splits if_splits)

text \<open>
  What holds of the state and the id that \<open>firstWorkflowTaskGenerated\<close> returns: the first
  task is absent or scheduled under the returned id; the history starts with the initial
  events; the markers are those of the signal's request id. For a child execution the
  task is absent, the id is 0 and the history holds the initial events only.
\<close>

lemma firstWorkflowTaskGenerated_state:
  assumes "firstWorkflowTaskGenerated shard namespaceEntry workflowID runID request signal
           = Inr (sid, ms)"
  shows "(workflowTask ms = TaskNone \<or> workflowTask ms = TaskScheduled sid)
         \<and> (ParentExecutionInfo request \<noteq> None \<longrightarrow>
               workflowTask ms = TaskNone \<and> transferTasks ms = [] \<and> sid = 0
               \<and> history ms = initialEvents workflowID runID request signal)
         \<and> signalRequestedIDs ms =
             (case signal of
                None \<Rightarrow> {}
              | Some s \<Rightarrow> if GetRequestId s = '''' then {} else {GetRequestId s})
         \<and> (\<exists>rest. history ms = initialEvents workflowID runID request signal @ rest)"
proof -
  obtain ms0 where c: "CreateMutableState shard namespaceEntry
        (WorkflowExecutionTimeout (StartRequest request))
        (WorkflowRunTimeout (StartRequest request)) workflowID runID = Inr ms0"
    using assms by (auto simp: firstWorkflowTaskGenerated_def split: sum.splits)
  have ms0: "ms0 = NewMutableState shard namespaceEntry workflowID runID"
    using c by (rule CreateMutableState_fresh)
  obtain startEvent ms1 where
    s: "AddWorkflowExecutionStartedEvent ms0 (workflowID, runID) request = Inr (startEvent, ms1)"
    using assms c by (auto simp: firstWorkflowTaskGenerated_def split: sum.splits)
  have ev: "startEvent = EventWorkflowExecutionStarted workflowID runID request"
    and ms1: "ms1 = ms0\<lparr>history := history ms0 @ [startEvent]\<rparr>"
    using AddWorkflowExecutionStartedEvent_Inr [OF s] by simp_all
  have ms1': "history ms1 = [startEvent]" "workflowTask ms1 = TaskNone"
    "transferTasks ms1 = []" "signalRequestedIDs ms1 = {}"
    by (simp_all add: ms1 ms0 NewMutableState_def)
  show ?thesis
  proof (cases signal)
    case None
    then have g: "GenerateFirstWorkflowTask ms1 (ParentExecutionInfo request) startEvent
        (RequestEagerExecution (StartRequest request)) = Inr (sid, ms)"
      using assms c s by (simp add: firstWorkflowTaskGenerated_def)
    from GenerateFirstWorkflowTask_task [OF g ms1'(2)] None show ?thesis
      by (auto simp: ms1' ev initialEvents_def)
  next
    case (Some sg)
    define ms2 where "ms2 = (if GetRequestId sg \<noteq> ''''
        then AddSignalRequested ms1 (GetRequestId sg) else ms1)"
    obtain signalEvent ms3 where
      a: "AddWorkflowExecutionSignaled ms2 (GetSignalName sg) (GetSignalInput sg)
            (GetIdentity sg) (GetHeader sg) (GetLinks sg) = Inr (signalEvent, ms3)"
      using assms c s Some
      by (auto simp: firstWorkflowTaskGenerated_def Let_def ms2_def split: sum.splits)
    have g: "GenerateFirstWorkflowTask ms3 (ParentExecutionInfo request) startEvent
        (RequestEagerExecution (StartRequest request)) = Inr (sid, ms)"
      using assms c s Some a
      by (simp add: firstWorkflowTaskGenerated_def Let_def ms2_def)
    have ms3: "ms3 = ms2\<lparr>history := history ms2 @
        [EventWorkflowExecutionSignaled (GetSignalName sg) (GetSignalInput sg)
           (GetIdentity sg) (GetHeader sg) (GetLinks sg)]\<rparr>"
      using AddWorkflowExecutionSignaled_Inr [OF a] by simp
    have ms2: "history ms2 = [startEvent]" "workflowTask ms2 = TaskNone"
      "transferTasks ms2 = []"
      "signalRequestedIDs ms2 = (if GetRequestId sg = '''' then {} else {GetRequestId sg})"
      by (simp_all add: ms2_def AddSignalRequested_def ms1')
    have "workflowTask ms3 = TaskNone"
      by (simp add: ms3 ms2)
    from GenerateFirstWorkflowTask_task [OF g this] Some show ?thesis
      by (auto simp: ms3 ms2 ev initialEvents_def)
  qed
qed

lemma AddWorkflowTaskStartedEvent_Inr:
  assumes "AddWorkflowTaskStartedEvent ms sid requestID taskQueue identity = Inr ms'"
  shows "workflowTask ms = TaskScheduled sid \<and> workflowTask ms' = TaskStarted sid
         \<and> signalRequestedIDs ms' = signalRequestedIDs ms
         \<and> (\<exists>rest. history ms' = history ms @ rest)"
  using assms
  by (auto simp: AddWorkflowTaskStartedEvent_def
      split: option.splits WorkflowTaskState.splits if_splits)

text \<open>
  \<^verbatim>\<open>NewWorkflowWithSignal\<close> returns the state of \<open>firstWorkflowTaskGenerated\<close>, with the
  first task started when eager execution was requested and a task is pending.
\<close>

lemma NewWorkflowWithSignal_cases:
  assumes "NewWorkflowWithSignal shard namespaceEntry workflowID runID request signal = Inr ms"
  obtains sid ms1 where
    "firstWorkflowTaskGenerated shard namespaceEntry workflowID runID request signal
       = Inr (sid, ms1)"
    and "RequestEagerExecution (StartRequest request) \<and> HasPendingWorkflowTask ms1
         \<Longrightarrow> AddWorkflowTaskStartedEvent ms1 sid (RequestId (StartRequest request))
               (TaskQueue (StartRequest request)) (Identity (StartRequest request)) = Inr ms"
    and "\<not> (RequestEagerExecution (StartRequest request) \<and> HasPendingWorkflowTask ms1)
         \<Longrightarrow> ms = ms1"
  using assms
  by (auto simp: NewWorkflowWithSignal_def split: sum.splits if_splits)

lemmas api_defs =
  NewWorkflowWithSignal_def firstWorkflowTaskGenerated_def CreateMutableState_def
  GenerateFirstWorkflowTask_def NewMutableState_def SetHistoryTree_def
  AddWorkflowExecutionStartedEvent_def AddSignalRequested_def
  AddWorkflowExecutionSignaled_def AddFirstWorkflowTaskScheduled_def
  firstWorkflowTaskBackoff_def HasPendingWorkflowTask_def AddWorkflowTaskStartedEvent_def
  shard0_def acme_def eagerStart_def childStart_def signal0_def

text \<open>
  C2. For every pair of a prior version and a current version, \<^verbatim>\<open>NewWorkflowVersionCheck\<close>
  fails if and only if the prior version is not the empty-version sentinel and is
  strictly greater (as signed 64-bit numbers) than the current version of the new state.
  On failure the error is the namespace-not-active error naming the namespace, the
  current cluster and the cluster of the prior version; otherwise the result is success.
\<close>

theorem NewWorkflowVersionCheck_fails_iff:
  "((NewWorkflowVersionCheck EmptyVersion shard prevLastWriteVersion newMutableState \<noteq> None)
      = (prevLastWriteVersion \<noteq> EmptyVersion
         \<and> sint (GetCurrentVersion newMutableState) < sint prevLastWriteVersion))
   \<and> NewWorkflowVersionCheck EmptyVersion shard prevLastWriteVersion newMutableState
      = (if prevLastWriteVersion \<noteq> EmptyVersion
            \<and> sint (GetCurrentVersion newMutableState) < sint prevLastWriteVersion
         then Some (NamespaceNotActive (Name (GetNamespaceEntry newMutableState))
                      (GetCurrentClusterName shard)
                      (ClusterNameForFailoverVersion shard
                         (IsGlobalNamespace (GetNamespaceEntry newMutableState))
                         prevLastWriteVersion))
         else None)"
  by (simp add: NewWorkflowVersionCheck_def Let_def)

theorem NewWorkflowVersionCheck_fails_iff_witness:
  "NewWorkflowVersionCheck 0 shard0 11 (NewMutableState shard0 acme ''wf'' ''run'')
     = Some (NamespaceNotActive ''acme'' ''active'' ''standby'')
   \<and> NewWorkflowVersionCheck 0 shard0 10 (NewMutableState shard0 acme ''wf'' ''run'') = None
   \<and> NewWorkflowVersionCheck 0 shard0 0 (NewMutableState shard0 acme ''wf'' ''run'') = None"
  using NewWorkflowVersionCheck_fails_iff
          [of 0 shard0 11 "NewMutableState shard0 acme ''wf'' ''run''"]
        NewWorkflowVersionCheck_fails_iff
          [of 0 shard0 10 "NewMutableState shard0 acme ''wf'' ''run''"]
        NewWorkflowVersionCheck_fails_iff
          [of 0 shard0 0 "NewMutableState shard0 acme ''wf'' ''run''"]
  by (simp add: NewMutableState_def shard0_def acme_def)

text \<open>
  C8, as the code has it. \<^verbatim>\<open>ValidateStart\<close> records the memo-size metric whenever the
  check of the input size passes, also when the check of the memo size then fails. When
  the check of the input size fails, \<^verbatim>\<open>ValidateStart\<close> returns that error with what the
  check emitted and records no memo-size metric.
\<close>

theorem ValidateStart_memo_metric:
  "(case snd (CheckEventBlobSizeLimit workflowInputSize
                (BlobSizeLimitWarn shard (Name namespaceEntry))
                (BlobSizeLimitError shard (Name namespaceEntry)) operation) of
      None \<Rightarrow>
        MetricRecord MemoSize operation workflowMemoSize
          \<in> set (fst (ValidateStart shard namespaceEntry workflowID workflowInputSize
                        workflowMemoSize operation))
    | Some err \<Rightarrow>
        ValidateStart shard namespaceEntry workflowID workflowInputSize workflowMemoSize
          operation
        = (fst (CheckEventBlobSizeLimit workflowInputSize
                  (BlobSizeLimitWarn shard (Name namespaceEntry))
                  (BlobSizeLimitError shard (Name namespaceEntry)) operation), Some err)
        \<and> (\<forall>v. MetricRecord MemoSize operation v
                 \<notin> set (fst (ValidateStart shard namespaceEntry workflowID workflowInputSize
                               workflowMemoSize operation))))"
  by (auto simp: ValidateStart_def CheckEventBlobSizeLimit_def Let_def
      split: option.splits prod.splits if_splits)

theorem ValidateStart_memo_metric_witness:
  "snd (CheckEventBlobSizeLimit 10 (BlobSizeLimitWarn shard0 (Name acme))
          (BlobSizeLimitError shard0 (Name acme)) ''StartWorkflowExecution'') = None
   \<and> snd (ValidateStart shard0 acme ''wf'' 10 1000 ''StartWorkflowExecution'')
       = Some ErrMemoSizeExceedsLimit
   \<and> MetricRecord MemoSize ''StartWorkflowExecution'' 1000
       \<in> set (fst (ValidateStart shard0 acme ''wf'' 10 1000 ''StartWorkflowExecution''))"
  using ValidateStart_memo_metric
          [where workflowInputSize = 10 and shard = shard0 and namespaceEntry = acme
             and operation = "''StartWorkflowExecution''" and workflowMemoSize = 1000
             and workflowID = "''wf''"]
  by (simp add: ValidateStart_def CheckEventBlobSizeLimit_def shard0_def acme_def)

text \<open>
  C8, as stated, fails: with an input of 4096 bytes against an error limit of 2048 the
  check of the input size fails, and \<^verbatim>\<open>ValidateStart\<close> returns before the memo-size
  metric: nothing is emitted.
\<close>

theorem ValidateStart_memo_metric_counterexample:
  "ValidateStart shard0 acme ''wf'' 4096 10 ''StartWorkflowExecution''
     = ([], Some ErrBlobSizeExceedsLimit)"
  by (simp add: ValidateStart_def CheckEventBlobSizeLimit_def shard0_def acme_def)

end
